theory Spec2Isabelle
  imports Main "HOL-Library.Multiset" "HOL-Library.Word"
begin

section \<open>The todo page of altschool-nextjs-todo (src/app/page.tsx)\<close>

text \<open>
  The page component keeps its state in React state variables, subscribes to a Firestore
  collection, and issues writes from four event handlers. Each handler is modelled as a
  function from the state at the moment of the call (and the environment: the database
  handle, the identifier the SDK generates, and whether the backing store accepts a write)
  to the state after the handler has run to completion, together with the remote writes it
  has issued, in order. What a handler does after its \<open>await\<close> is to set a state variable
  to a constant, so the model does not depend on what the variable held in between.
  The record fields \<open>id'\<close> and \<open>done'\<close> are the properties \<open>id\<close> and \<open>done\<close> of the source.
\<close>

subsection \<open>JavaScript strings\<close>

text \<open>
  A JavaScript string is a sequence of UTF-16 code units. String literals of the source are
  ASCII and are written with \<open>lit\<close>.
\<close>

type_synonym jsstring = "16 word list"

definition lit :: "string \<Rightarrow> jsstring" where
  "lit s = map (\<lambda>c. of_nat (of_char c)) s"

text \<open>
  \<open>String.prototype.trim\<close> strips, from both ends, the code units of the ECMAScript
  productions WhiteSpace (TAB, VT, FF, ZWNBSP and the space separators of Unicode) and
  LineTerminator (LF, CR, LS, PS).
\<close>

definition isWhiteSpace :: "16 word \<Rightarrow> bool" where
  "isWhiteSpace c =
     (c = 0x0009 \<or> c = 0x000A \<or> c = 0x000B \<or> c = 0x000C \<or> c = 0x000D \<or>
      c = 0x0020 \<or> c = 0x00A0 \<or> c = 0x1680 \<or> (0x2000 \<le> c \<and> c \<le> 0x200A) \<or>
      c = 0x2028 \<or> c = 0x2029 \<or> c = 0x202F \<or> c = 0x205F \<or> c = 0x3000 \<or>
      c = 0xFEFF)"

definition trimStart :: "jsstring \<Rightarrow> jsstring" where
  "trimStart s = dropWhile isWhiteSpace s"

definition trimEnd :: "jsstring \<Rightarrow> jsstring" where
  "trimEnd s = rev (dropWhile isWhiteSpace (rev s))"

definition trim :: "jsstring \<Rightarrow> jsstring" where
  "trim s = trimEnd (trimStart s)"

text \<open>A string is truthy exactly when it is not empty.\<close>

definition truthy :: "jsstring \<Rightarrow> bool" where
  "truthy s = (s \<noteq> [])"

text \<open>What the claims call empty or whitespace-only content.\<close>

definition whitespaceOnly :: "jsstring \<Rightarrow> bool" where
  "whitespaceOnly s = list_all isWhiteSpace s"

subsection \<open>Data model\<close>

datatype Category = business | personal

definition categoryString :: "Category \<Rightarrow> jsstring" where
  "categoryString c = (case c of business \<Rightarrow> lit ''business'' | personal \<Rightarrow> lit ''personal'')"

text \<open>
  The \<open>createdAt\<close> field, as the interface \<open>Todo\<close> declares it: a \<open>Timestamp\<close> or an
  object with \<open>seconds\<close> and \<open>nanoseconds\<close> (both carry the same two properties), the
  \<open>FieldValue\<close> sentinel of \<open>serverTimestamp()\<close>, \<open>null\<close>, or \<open>undefined\<close>. The seconds of a
  Firestore timestamp are whole numbers far inside the range where JavaScript's number
  arithmetic is exact, so they are integers here.
\<close>

datatype CreatedAt =
    Timestamp (seconds: int) (nanoseconds: int)
  | FieldValue
  | Null
  | Undefined

text \<open>The fields of a document (\<open>Omit<Todo, 'id'>\<close>), and a todo: the fields and the id.\<close>

record TodoData =
  content :: jsstring
  category :: Category
  done' :: bool
  createdAt :: CreatedAt
  createdBy :: "jsstring option"

record Todo = TodoData +
  id' :: jsstring

subsection \<open>Array.prototype.sort\<close>

text \<open>
  The built-in sort with a comparator: it is stable, and an element \<open>x\<close> is placed
  after an element \<open>y\<close> that followed it only when the comparator says \<open>x\<close> is greater
  (\<open>cmp x y > 0\<close>). For a consistent comparator every conforming engine returns this
  result; it is computed here by insertion from the right.
\<close>

fun sortInsert :: "('a \<Rightarrow> 'a \<Rightarrow> int) \<Rightarrow> 'a \<Rightarrow> 'a list \<Rightarrow> 'a list" where
  "sortInsert cmp x [] = [x]"
| "sortInsert cmp x (y # ys) = (if cmp x y > 0 then y # sortInsert cmp x ys else x # y # ys)"

fun arraySort :: "('a \<Rightarrow> 'a \<Rightarrow> int) \<Rightarrow> 'a list \<Rightarrow> 'a list" where
  "arraySort cmp [] = []"
| "arraySort cmp (x # xs) = sortInsert cmp x (arraySort cmp xs)"

subsection \<open>The derived, sorted list\<close>

text \<open>
  \<open>(t.createdAt as Timestamp)?.seconds || 0\<close>: optional chaining gives \<open>undefined\<close> for
  \<open>null\<close> and \<open>undefined\<close>, the sentinel has no \<open>seconds\<close> property, and \<open>||\<close> replaces
  every falsy value (\<open>undefined\<close> and the number 0) by 0.
\<close>

definition optSeconds :: "CreatedAt \<Rightarrow> int option" where
  "optSeconds c = (case c of Timestamp s n \<Rightarrow> Some s | FieldValue \<Rightarrow> None
                   | Null \<Rightarrow> None | Undefined \<Rightarrow> None)"

definition orZero :: "int option \<Rightarrow> int" where
  "orZero v = (case v of None \<Rightarrow> 0 | Some x \<Rightarrow> (if x = 0 then 0 else x))"

definition time :: "'a Todo_scheme \<Rightarrow> int" where
  "time t = orZero (optSeconds (createdAt t))"

definition compareCreatedAt :: "'a Todo_scheme \<Rightarrow> 'a Todo_scheme \<Rightarrow> int" where
  "compareCreatedAt a b = time a - time b"

text \<open>\<open>[...todos].sort((a, b) => timeA - timeB)\<close>, as a function of the array's contents.\<close>

definition todosAsc :: "Todo list \<Rightarrow> Todo list" where
  "todosAsc todos = arraySort compareCreatedAt todos"

subsection \<open>Creation markers, in the words of the specification\<close>

text \<open>
  The key in the words of the specification: the seconds of a resolved creation marker,
  and 0 when the marker is unresolved or absent.
\<close>

definition specKey :: "Todo \<Rightarrow> int" where
  "specKey t = (case createdAt t of Timestamp s n \<Rightarrow> s | _ \<Rightarrow> 0)"

text \<open>A creation marker is resolved when it is a timestamp.\<close>

definition resolved :: "Todo \<Rightarrow> bool" where
  "resolved t = (case createdAt t of Timestamp s n \<Rightarrow> True | _ \<Rightarrow> False)"

text \<open>
  The value of a resolved marker with its sub-second component: nanoseconds since the
  epoch. (The nanoseconds of a timestamp lie between 0 and 999999999.)
\<close>

definition markerValue :: "Todo \<Rightarrow> int" where
  "markerValue t = (case createdAt t of Timestamp s n \<Rightarrow> s * 1000000000 + n | _ \<Rightarrow> 0)"

subsection \<open>The array store\<close>

text \<open>
  Arrays are mutable objects held by reference. Where aliasing matters the arrays live in
  a store, a reference being an index into it; the source only ever holds references to
  arrays that exist. \<open>[...a]\<close> allocates a new array with the elements of \<open>a\<close>;
  \<open>a.sort(cmp)\<close> sorts the array \<open>a\<close> in place and returns the same reference.
\<close>

type_synonym 'a store = "'a list list"

definition spread :: "'a store \<Rightarrow> nat \<Rightarrow> 'a store \<times> nat" where
  "spread h a = (h @ [h ! a], length h)"

definition sortInPlace :: "('a \<Rightarrow> 'a \<Rightarrow> int) \<Rightarrow> 'a store \<Rightarrow> nat \<Rightarrow> 'a store \<times> nat" where
  "sortInPlace cmp h a = (h[a := arraySort cmp (h ! a)], a)"

text \<open>The body of the \<open>useMemo\<close> callback, on the store.\<close>

definition todosAscStore :: "Todo store \<Rightarrow> nat \<Rightarrow> Todo store \<times> nat" where
  "todosAscStore h todosRef =
     (case spread h todosRef of (h1, copy) \<Rightarrow> sortInPlace compareCreatedAt h1 copy)"

subsection \<open>Component state and the Firestore interface\<close>

record State =
  name :: jsstring
  todos :: "Todo list"
  inputContent :: jsstring
  inputCategory :: Category
  userId :: "jsstring option"
  syncStatus :: jsstring

text \<open>
  The database handle is imported from the configuration module, which the page checks for
  being unset before every use. References are built by \<open>collection\<close> and \<open>doc\<close>; a
  document reference is the collection of the document and its id.
\<close>

datatype Firestore = Firestore

datatype CollectionReference = CollectionReference Firestore "jsstring list"

datatype DocumentReference = DocumentReference CollectionReference jsstring

text \<open>
  The fields of an object literal passed to \<open>setDoc\<close>, and the two write calls of the
  page: \<open>setDoc(ref, data)\<close> or \<open>setDoc(ref, data, {merge: true})\<close>, and \<open>deleteDoc(ref)\<close>.
\<close>

datatype Field =
    ContentField jsstring
  | CategoryField Category
  | DoneField bool
  | CreatedAtField CreatedAt
  | CreatedByField "jsstring option"

datatype Write =
    SetDoc DocumentReference "Field list" (merge: bool)
  | DeleteDoc DocumentReference

text \<open>
  The environment of a handler: the database handle (or none), the identifier that
  \<open>doc(collectionRef)\<close> generates for a new document, and whether the promise of a write
  resolves (\<open>True\<close>) or rejects.
\<close>

record Env =
  firestoreDb :: "Firestore option"
  autoId :: jsstring
  resolves :: "Write \<Rightarrow> bool"

definition appId :: jsstring where
  "appId = lit ''nextjs-todo-app''"

definition collection :: "Firestore \<Rightarrow> jsstring list \<Rightarrow> CollectionReference" where
  "collection db path = CollectionReference db path"

text \<open>
  \<open>doc(collectionRef)\<close>, with one argument, makes a reference to a new document under an
  identifier that the SDK generates; it does not throw.
\<close>

definition docAutoId :: "CollectionReference \<Rightarrow> jsstring \<Rightarrow> DocumentReference" where
  "docAutoId parent generated = DocumentReference parent generated"

text \<open>
  \<open>doc(collectionRef, path)\<close> throws (\<open>None\<close>) when the path is empty, when it contains
  \<open>//\<close>, and when the path of the collection followed by the non-empty segments of
  \<open>path.split('/')\<close> is not the path of a document, that is, has an odd number of segments.
  Otherwise the reference is to the document that the whole path names. An id without a
  slash names a document of the collection itself.
\<close>

fun splitSlash :: "jsstring \<Rightarrow> jsstring list" where
  "splitSlash [] = [[]]"
| "splitSlash (c # cs) =
     (if c = 0x002F then [] # splitSlash cs
      else (case splitSlash cs of [] \<Rightarrow> [[c]] | s # ss \<Rightarrow> (c # s) # ss))"

fun hasDoubleSlash :: "jsstring \<Rightarrow> bool" where
  "hasDoubleSlash (a # b # cs) = ((a = 0x002F \<and> b = 0x002F) \<or> hasDoubleSlash (b # cs))"
| "hasDoubleSlash cs = False"

definition doc :: "CollectionReference \<Rightarrow> jsstring \<Rightarrow> DocumentReference option" where
  "doc parent path =
     (case parent of CollectionReference db parentPath \<Rightarrow>
        if \<not> truthy path \<or> hasDoubleSlash path then None
        else
          (let segments = filter (\<lambda>s. s \<noteq> []) (splitSlash path)
           in if segments = [] \<or> odd (length parentPath + length segments) then None
              else Some (DocumentReference
                           (CollectionReference db (parentPath @ butlast segments))
                           (last segments))))"

definition serverTimestamp :: CreatedAt where
  "serverTimestamp = FieldValue"

definition getTodosCollectionRef :: "Env \<Rightarrow> CollectionReference option" where
  "getTodosCollectionRef env =
     (case firestoreDb env of
        None \<Rightarrow> None
      | Some db \<Rightarrow>
          Some (collection db [lit ''artifacts'', appId, lit ''public'', lit ''data'', lit ''todos'']))"

subsection \<open>The snapshot listener\<close>





definition onSnapshotError :: "State \<Rightarrow> State" where
  "onSnapshotError st = st\<lparr> syncStatus := lit ''Sync Error. Check console.'' \<rparr>"


subsection \<open>The handlers\<close>

text \<open>
  Each handler returns the state after it has finished and the writes it has issued. The
  \<open>try\<close> block of a handler awaits one write; when its promise rejects, the \<open>catch\<close> block
  sets the status. In \<open>removeTodo\<close> the call of \<open>doc\<close> stands inside the \<open>try\<close> block, so
  the \<open>catch\<close> block also runs when \<open>doc\<close> throws. In \<open>toggleDone\<close> and \<open>updateContent\<close>
  it stands before the \<open>try\<close> block: when \<open>doc\<close> throws there, the handler's promise
  rejects with nobody to handle it, no write is issued and no state variable is set.
\<close>

definition addTodo :: "Env \<Rightarrow> State \<Rightarrow> State \<times> Write list" where
  "addTodo env st =
     (if \<not> truthy (trim (inputContent st)) \<or> \<not> truthy (categoryString (inputCategory st))
         \<or> firestoreDb env = None
      then (st, [])
      else
        (case getTodosCollectionRef env of
           None \<Rightarrow> (st, [])
         | Some todosColRef \<Rightarrow>
             (let newDocRef = docAutoId todosColRef (autoId env);
                  w = SetDoc newDocRef
                        [ContentField (trim (inputContent st)),
                         CategoryField (inputCategory st),
                         DoneField False,
                         CreatedAtField serverTimestamp,
                         CreatedByField (userId st)] False
              in if resolves env w
                 then (st\<lparr> inputContent := [] \<rparr>, [w])
                 else (st\<lparr> syncStatus := lit ''Failed to add todo. Check console.'' \<rparr>, [w]))))"

definition removeTodo :: "Env \<Rightarrow> State \<Rightarrow> jsstring \<Rightarrow> State \<times> Write list" where
  "removeTodo env st todoId =
     (if firestoreDb env = None then (st, [])
      else
        (case getTodosCollectionRef env of
           None \<Rightarrow> (st, [])
         | Some todosColRef \<Rightarrow>
             (case doc todosColRef todoId of
                None \<Rightarrow> (st\<lparr> syncStatus := lit ''Failed to delete todo. Check console.'' \<rparr>, [])
              | Some todoRef \<Rightarrow>
                  (let w = DeleteDoc todoRef
                   in if resolves env w
                      then (st, [w])
                      else (st\<lparr> syncStatus := lit ''Failed to delete todo. Check console.'' \<rparr>,
                            [w])))))"

definition toggleDone :: "Env \<Rightarrow> State \<Rightarrow> Todo \<Rightarrow> State \<times> Write list" where
  "toggleDone env st todo =
     (if firestoreDb env = None then (st, [])
      else
        (case getTodosCollectionRef env of
           None \<Rightarrow> (st, [])
         | Some todosColRef \<Rightarrow>
             (case doc todosColRef (id' todo) of
                None \<Rightarrow> (st, [])
              | Some todoRef \<Rightarrow>
                  (let w = SetDoc todoRef [DoneField (\<not> done' todo)] True
                   in if resolves env w
                      then (st, [w])
                      else (st\<lparr> syncStatus :=
                                 lit ''Failed to update todo status. Check console.'' \<rparr>, [w])))))"

definition updateContent :: "Env \<Rightarrow> State \<Rightarrow> jsstring \<Rightarrow> jsstring \<Rightarrow> State \<times> Write list" where
  "updateContent env st todoId newContent =
     (if firestoreDb env = None \<or> \<not> truthy (trim newContent) then (st, [])
      else
        (case getTodosCollectionRef env of
           None \<Rightarrow> (st, [])
         | Some todosColRef \<Rightarrow>
             (case doc todosColRef todoId of
                None \<Rightarrow> (st, [])
              | Some todoRef \<Rightarrow>
                  (let w = SetDoc todoRef [ContentField (trim newContent)] True
                   in if resolves env w
                      then (st, [w])
                      else (st\<lparr> syncStatus :=
                                 lit ''Failed to update todo content. Check console.'' \<rparr>, [w])))))"

text \<open>The \<open>onChange\<close> handler of a todo's input: the local copy follows the typing.\<close>

definition onContentChange :: "State \<Rightarrow> jsstring \<Rightarrow> jsstring \<Rightarrow> State" where
  "onContentChange st todoId v =
     st\<lparr> todos := map (\<lambda>t. if id' t = todoId then t\<lparr> content := v \<rparr> else t) (todos st) \<rparr>"

text \<open>The strings a write stores in the \<open>content\<close> field of a document.\<close>

fun fieldContent :: "Field \<Rightarrow> jsstring list" where
  "fieldContent (ContentField c) = [c]"
| "fieldContent _ = []"

fun contentWritten :: "Write \<Rightarrow> jsstring list" where
  "contentWritten (SetDoc r fs m) = concat (map fieldContent fs)"
| "contentWritten (DeleteDoc r) = []"

subsection \<open>Concrete inputs\<close>

text \<open>
  A todo with a given id and creation marker, a form filled in, a document of a snapshot
  (with or without a stored \<open>id\<close> field), and an environment.
\<close>

definition exampleTodo :: "jsstring \<Rightarrow> CreatedAt \<Rightarrow> Todo" where
  "exampleTodo i c =
     \<lparr> content = lit ''task'', category = personal, done' = False,
       createdAt = c, createdBy = None, id' = i \<rparr>"

definition exampleState :: State where
  "exampleState =
     \<lparr> name = lit ''Ada'', todos = [], inputContent = lit '' buy milk '',
       inputCategory = business, userId = Some (lit ''u1''),
       syncStatus = lit ''Authenticated. Ready for sync.'' \<rparr>"


definition exampleEnv :: Env where
  "exampleEnv = \<lparr> firestoreDb = Some Firestore, autoId = lit ''d1'', resolves = (\<lambda>w. True) \<rparr>"

text \<open>The path of the todos collection, with the application id written out.\<close>

definition todosPath :: "jsstring list" where
  "todosPath = [lit ''artifacts'', lit ''nextjs-todo-app'', lit ''public'', lit ''data'',
                lit ''todos'']"

section \<open>Properties\<close>

subsection \<open>Trimming\<close>

lemma last_dropWhile_eq: "dropWhile P xs \<noteq> [] \<Longrightarrow> last (dropWhile P xs) = last xs"
  by (induction xs) (auto split: if_splits)

lemma trim_empty_iff: "trim s = [] \<longleftrightarrow> whitespaceOnly s"
proof
  assume "trim s = []"
  then have all: "\<forall>c \<in> set (dropWhile isWhiteSpace s). isWhiteSpace c"
    by (simp add: trim_def trimEnd_def trimStart_def)
  have "dropWhile isWhiteSpace s = []"
  proof (rule ccontr)
    assume ne: "dropWhile isWhiteSpace s \<noteq> []"
    then have "\<not> isWhiteSpace (hd (dropWhile isWhiteSpace s))" by (rule hd_dropWhile)
    moreover from ne have "hd (dropWhile isWhiteSpace s) \<in> set (dropWhile isWhiteSpace s)"
      by simp
    ultimately show False using all by blast
  qed
  then show "whitespaceOnly s"
    by (simp add: whitespaceOnly_def list_all_iff)
next
  assume "whitespaceOnly s"
  then have "trimStart s = []"
    by (simp add: trimStart_def whitespaceOnly_def list_all_iff)
  then show "trim s = []"
    by (simp add: trim_def trimEnd_def)
qed

lemma truthy_trim: "truthy (trim s) \<longleftrightarrow> \<not> whitespaceOnly s"
  by (simp add: truthy_def trim_empty_iff)

lemma trim_ends:
  assumes "trim s \<noteq> []"
  shows "\<not> isWhiteSpace (hd (trim s))" and "\<not> isWhiteSpace (last (trim s))"
proof -
  let ?u = "dropWhile isWhiteSpace s"
  let ?v = "dropWhile isWhiteSpace (rev ?u)"
  from assms have v: "?v \<noteq> []" by (simp add: trim_def trimEnd_def trimStart_def)
  have u: "?u \<noteq> []"
  proof
    assume "?u = []"
    then have "?v = []" by (simp only: rev.simps dropWhile.simps)
    with v show False ..
  qed
  from v have "\<not> isWhiteSpace (hd ?v)" by (rule hd_dropWhile)
  with v show "\<not> isWhiteSpace (last (trim s))"
    by (simp add: trim_def trimEnd_def trimStart_def last_rev)
  from u have hu: "\<not> isWhiteSpace (hd ?u)" by (rule hd_dropWhile)
  from v have "last ?v = last (rev ?u)" by (rule last_dropWhile_eq)
  with u have "last ?v = hd ?u" by (simp add: last_rev)
  with v hu show "\<not> isWhiteSpace (hd (trim s))"
    by (simp add: trim_def trimEnd_def trimStart_def hd_rev)
qed

lemma trim_fixed:
  assumes "t \<noteq> []" "\<not> isWhiteSpace (hd t)" "\<not> isWhiteSpace (last t)"
  shows "trim t = t"
proof -
  from assms(1,2) have "dropWhile isWhiteSpace t = t" by (cases t) simp_all
  moreover from assms(1,3) have "dropWhile isWhiteSpace (rev t) = rev t"
    by (cases "rev t") (simp_all add: last_rev [symmetric] del: last_rev)
  ultimately show ?thesis by (simp add: trim_def trimEnd_def trimStart_def)
qed

lemma trim_idem: "trim (trim s) = trim s"
proof (cases "trim s = []")
  case True
  have "trim [] = []" by (simp add: trim_def trimEnd_def trimStart_def)
  with True show ?thesis by simp
next
  case False
  then show ?thesis by (intro trim_fixed trim_ends)
qed

lemma trimmed_content:
  "truthy (trim s) \<Longrightarrow> trim s \<noteq> [] \<and> \<not> whitespaceOnly (trim s) \<and> trim (trim s) = trim s"
  by (simp add: truthy_def trim_idem trim_empty_iff [symmetric])

lemma trim_buy_milk: "trim (lit '' buy milk '') = lit ''buy milk''"
  by (simp add: trim_def trimStart_def trimEnd_def lit_def isWhiteSpace_def)

lemma truthy_categoryString: "truthy (categoryString c)"
  by (cases c) (simp_all add: truthy_def categoryString_def lit_def)

subsection \<open>The ordered view\<close>

lemma time_specKey: "time t = specKey t"
  by (simp add: time_def specKey_def orZero_def optSeconds_def split: CreatedAt.splits)

lemma sortInsert_insort_key:
  "sortInsert compareCreatedAt x ys = insort_key specKey x ys"
  by (induction ys) (auto simp: compareCreatedAt_def time_specKey)

lemma arraySort_sort_key: "arraySort compareCreatedAt ts = sort_key specKey ts"
  by (induction ts) (simp_all add: sortInsert_insort_key)

lemma sorted_specKey_todosAsc: "sorted (map specKey (todosAsc ts))"
  by (simp add: todosAsc_def arraySort_sort_key)

lemma resolved_specKey: "resolved t \<Longrightarrow> specKey t = seconds (createdAt t)"
  by (simp add: resolved_def specKey_def split: CreatedAt.splits)

lemma unresolved_specKey: "\<not> resolved t \<Longrightarrow> specKey t = 0"
  by (simp add: resolved_def specKey_def split: CreatedAt.splits)

lemma mset_sortInsert: "mset (sortInsert cmp x ys) = add_mset x (mset ys)"
  by (induction ys) simp_all

lemma mset_arraySort: "mset (arraySort cmp xs) = mset xs"
  by (induction xs) (simp_all add: mset_sortInsert)

lemmas evalSort = todosAsc_def compareCreatedAt_def time_def orZero_def optSeconds_def

text \<open>
  C1: the ordered view is the stable sort of the local collection, ascending by the key
  "seconds of the resolved creation marker, 0 when it is unresolved or absent": it equals
  the library's stable insertion sort by that key, its keys ascend, and the items of each
  key keep the order they had in the collection.
\<close>

theorem C1_todosAsc_stable_sort:
  "todosAsc ts = sort_key specKey ts
   \<and> sorted (map specKey (todosAsc ts))
   \<and> (\<forall>k. filter (\<lambda>t. specKey t = k) (todosAsc ts) = filter (\<lambda>t. specKey t = k) ts)"
  unfolding todosAsc_def arraySort_sort_key
  by (simp add: sort_key_stable)

text \<open>
  At a collection of three: the pending item comes first, and the two items of second 7
  keep their order.
\<close>

theorem C1_todosAsc_stable_sort_witness:
  "todosAsc [exampleTodo (lit ''a'') (Timestamp 7 0), exampleTodo (lit ''b'') (Timestamp 7 5),
             exampleTodo (lit ''c'') Null, exampleTodo (lit ''d'') (Timestamp 3 9)]
   = [exampleTodo (lit ''c'') Null, exampleTodo (lit ''d'') (Timestamp 3 9),
      exampleTodo (lit ''a'') (Timestamp 7 0), exampleTodo (lit ''b'') (Timestamp 7 5)]"
  using C1_todosAsc_stable_sort
          [of "[exampleTodo (lit ''a'') (Timestamp 7 0), exampleTodo (lit ''b'') (Timestamp 7 5),
                exampleTodo (lit ''c'') Null, exampleTodo (lit ''d'') (Timestamp 3 9)]"]
  by (simp add: specKey_def exampleTodo_def)

text \<open>
  The comparator reads the seconds only. Two items of one second stay in the order of the
  collection, whatever their nanoseconds: with the later one first, the marker values of
  the view descend.
\<close>

theorem C2_subsecond_counterexample:
  "\<not> sorted (map markerValue (filter resolved
        (todosAsc [exampleTodo (lit ''a'') (Timestamp 1700000000 900000000),
                   exampleTodo (lit ''b'') (Timestamp 1700000000 100000000)])))"
  by (simp add: evalSort exampleTodo_def resolved_def markerValue_def)

lemma todosAsc_keeps_order_per_key:
  "filter (\<lambda>t. specKey t = k) (todosAsc ts) = filter (\<lambda>t. specKey t = k) ts"
  by (simp add: todosAsc_def arraySort_sort_key sort_key_stable)

lemma filter_resolved_second:
  "filter (\<lambda>t. resolved t \<and> seconds (createdAt t) = s) xs
     = filter resolved (filter (\<lambda>t. specKey t = s) xs)"
  by (induction xs) (auto simp: resolved_specKey)

text \<open>
  C2, as amended: in the ordered view, the items with a resolved creation marker have
  non-decreasing marker seconds; the sub-second component is not compared, and the items
  of one second keep the order they have in the local collection.
\<close>

theorem C2_resolved_seconds_ascending:
  "sorted (map (\<lambda>t. seconds (createdAt t)) (filter resolved (todosAsc ts)))
   \<and> (\<forall>s. filter (\<lambda>t. resolved t \<and> seconds (createdAt t) = s) (todosAsc ts)
            = filter (\<lambda>t. resolved t \<and> seconds (createdAt t) = s) ts)"
proof
  have "sorted (map specKey (filter resolved (todosAsc ts)))"
    using sorted_specKey_todosAsc by (rule sorted_filter)
  moreover have "map specKey (filter resolved (todosAsc ts))
               = map (\<lambda>t. seconds (createdAt t)) (filter resolved (todosAsc ts))"
    by (rule map_cong) (simp_all add: resolved_specKey)
  ultimately show "sorted (map (\<lambda>t. seconds (createdAt t)) (filter resolved (todosAsc ts)))"
    by simp
next
  show "\<forall>s. filter (\<lambda>t. resolved t \<and> seconds (createdAt t) = s) (todosAsc ts)
            = filter (\<lambda>t. resolved t \<and> seconds (createdAt t) = s) ts"
    by (simp only: filter_resolved_second todosAsc_keeps_order_per_key) simp
qed

text \<open>
  At a collection with two items of second 7, the later one first: they stay in that
  order in the view, after the item of second 3.
\<close>

theorem C2_resolved_seconds_ascending_witness:
  "map (\<lambda>t. seconds (createdAt t)) (filter resolved
        (todosAsc [exampleTodo (lit ''a'') (Timestamp 7 900), exampleTodo (lit ''c'') Null,
                   exampleTodo (lit ''b'') (Timestamp 7 100),
                   exampleTodo (lit ''d'') (Timestamp 3 9)])) = [3, 7, 7]
   \<and> filter (\<lambda>t. resolved t \<and> seconds (createdAt t) = 7)
        (todosAsc [exampleTodo (lit ''a'') (Timestamp 7 900), exampleTodo (lit ''c'') Null,
                   exampleTodo (lit ''b'') (Timestamp 7 100),
                   exampleTodo (lit ''d'') (Timestamp 3 9)])
     = [exampleTodo (lit ''a'') (Timestamp 7 900), exampleTodo (lit ''b'') (Timestamp 7 100)]"
proof -
  let ?ts = "[exampleTodo (lit ''a'') (Timestamp 7 900), exampleTodo (lit ''c'') Null,
              exampleTodo (lit ''b'') (Timestamp 7 100), exampleTodo (lit ''d'') (Timestamp 3 9)]"
  from C2_resolved_seconds_ascending [of ?ts]
  have "filter (\<lambda>t. resolved t \<and> seconds (createdAt t) = 7) (todosAsc ?ts)
          = filter (\<lambda>t. resolved t \<and> seconds (createdAt t) = 7) ?ts"
    by blast
  then have "filter (\<lambda>t. resolved t \<and> seconds (createdAt t) = 7) (todosAsc ?ts)
          = [exampleTodo (lit ''a'') (Timestamp 7 900), exampleTodo (lit ''b'') (Timestamp 7 100)]"
    by (simp add: resolved_def exampleTodo_def)
  moreover have "map (\<lambda>t. seconds (createdAt t)) (filter resolved (todosAsc ?ts)) = [3, 7, 7]"
    by (simp add: evalSort resolved_def exampleTodo_def)
  ultimately show ?thesis by blast
qed

text \<open>
  An absent marker has key 0, and so has a resolved marker of second 0: a snapshot that
  delivers the resolved item first leaves it first, before the item without a marker.
\<close>

theorem C3_epoch_counterexample:
  "length (todosAsc [exampleTodo (lit ''a'') (Timestamp 0 0), exampleTodo (lit ''b'') Null]) = 2
   \<and> resolved (todosAsc [exampleTodo (lit ''a'') (Timestamp 0 0), exampleTodo (lit ''b'') Null] ! 0)
   \<and> \<not> resolved (todosAsc [exampleTodo (lit ''a'') (Timestamp 0 0), exampleTodo (lit ''b'') Null] ! 1)"
  by (simp add: evalSort exampleTodo_def resolved_def)

text \<open>
  C3, as amended: in the ordered view, every item with an unresolved or absent creation
  marker appears before every item with a resolved marker whose seconds are positive.
\<close>

theorem C3_unresolved_before_positive:
  assumes i: "i < length (todosAsc ts)" and j: "j < length (todosAsc ts)"
    and ui: "\<not> resolved (todosAsc ts ! i)"
    and rj: "resolved (todosAsc ts ! j)"
    and pos: "0 < seconds (createdAt (todosAsc ts ! j))"
  shows "i < j"
proof (rule ccontr)
  assume "\<not> i < j"
  then have "j \<le> i" by simp
  with i have "map specKey (todosAsc ts) ! j \<le> map specKey (todosAsc ts) ! i"
    using sorted_specKey_todosAsc [of ts] by (simp add: sorted_iff_nth_mono del: nth_map)
  with i j have "specKey (todosAsc ts ! j) \<le> specKey (todosAsc ts ! i)" by simp
  with ui rj pos show False
    by (simp add: resolved_specKey unresolved_specKey)
qed

theorem C3_unresolved_before_positive_witness:
  "todosAsc [exampleTodo (lit ''a'') (Timestamp 7 0), exampleTodo (lit ''b'') Null]
     = [exampleTodo (lit ''b'') Null, exampleTodo (lit ''a'') (Timestamp 7 0)]
   \<and> \<not> resolved (exampleTodo (lit ''b'') Null)
   \<and> resolved (exampleTodo (lit ''a'') (Timestamp 7 0))
   \<and> 0 < seconds (createdAt (exampleTodo (lit ''a'') (Timestamp 7 0)))
   \<and> (0::nat) < 1"
proof -
  let ?ts = "[exampleTodo (lit ''a'') (Timestamp 7 0), exampleTodo (lit ''b'') Null]"
  have r: "todosAsc ?ts = [exampleTodo (lit ''b'') Null, exampleTodo (lit ''a'') (Timestamp 7 0)]"
    by (simp add: evalSort exampleTodo_def)
  have h1: "0 < length (todosAsc ?ts)" and h2: "1 < length (todosAsc ?ts)"
    by (simp_all add: r)
  have h3: "\<not> resolved (todosAsc ?ts ! 0)" and h4: "resolved (todosAsc ?ts ! 1)"
    unfolding r by (simp_all add: resolved_def exampleTodo_def)
  have h5: "0 < seconds (createdAt (todosAsc ?ts ! 1))"
    unfolding r by (simp add: exampleTodo_def)
  have "(0::nat) < 1"
    by (rule C3_unresolved_before_positive [OF h1 h2 h3 h4 h5])
  moreover from h3 h4 h5 have "\<not> resolved (exampleTodo (lit ''b'') Null)"
    and "resolved (exampleTodo (lit ''a'') (Timestamp 7 0))"
    and "0 < seconds (createdAt (exampleTodo (lit ''a'') (Timestamp 7 0)))"
    unfolding r by simp_all
  ultimately show ?thesis using r by blast
qed

text \<open>
  C10: computing the ordered view leaves the local collection unchanged, since the sort
  works on a fresh copy, and the array it returns is a permutation of the collection: in
  the store after the computation every array that existed is as it was, the result is a
  new array, and it holds the items of the collection, each as often as the collection.
\<close>

theorem C10_sorts_a_copy:
  assumes "todosRef < length h" and "todosAscStore h todosRef = (h', r)"
  shows "r \<noteq> todosRef \<and> r < length h' \<and> take (length h) h' = h
         \<and> h' ! todosRef = h ! todosRef
         \<and> h' ! r = todosAsc (h ! todosRef)
         \<and> mset (h' ! r) = mset (h ! todosRef)"
  using assms
  by (auto simp: todosAscStore_def spread_def sortInPlace_def todosAsc_def mset_arraySort
        nth_append)

theorem C10_sorts_a_copy_witness:
  "todosAscStore [[exampleTodo (lit ''a'') (Timestamp 7 0), exampleTodo (lit ''b'') Null]] 0
     = ([[exampleTodo (lit ''a'') (Timestamp 7 0), exampleTodo (lit ''b'') Null],
         [exampleTodo (lit ''b'') Null, exampleTodo (lit ''a'') (Timestamp 7 0)]], 1)
   \<and> mset [exampleTodo (lit ''b'') Null, exampleTodo (lit ''a'') (Timestamp 7 0)]
     = mset [exampleTodo (lit ''a'') (Timestamp 7 0), exampleTodo (lit ''b'') Null]"
proof -
  let ?a = "exampleTodo (lit ''a'') (Timestamp 7 0)" and ?b = "exampleTodo (lit ''b'') Null"
  have h1: "0 < length [[?a, ?b]]" by simp
  have h2: "todosAscStore [[?a, ?b]] 0 = ([[?a, ?b], [?b, ?a]], 1)"
    by (simp add: todosAscStore_def spread_def sortInPlace_def compareCreatedAt_def time_def
          orZero_def optSeconds_def exampleTodo_def)
  from C10_sorts_a_copy [OF h1 h2]
  have "mset ([[?a, ?b], [?b, ?a]] ! 1) = mset ([[?a, ?b]] ! 0)" by blast
  then have "mset [?b, ?a] = mset [?a, ?b]" by simp
  with h2 show ?thesis by blast
qed

subsection \<open>The snapshot listener\<close>





subsection \<open>The handlers\<close>

text \<open>
  C5: when the input content is empty or consists of whitespace only, the add handler
  issues no write and leaves the state as it is.
\<close>

theorem C5_blank_add_is_local:
  "whitespaceOnly (inputContent st) \<Longrightarrow> addTodo env st = (st, [])"
  by (simp add: addTodo_def truthy_trim)

theorem C5_blank_add_is_local_witness:
  "whitespaceOnly (lit ''   '')
   \<and> addTodo exampleEnv (exampleState\<lparr> inputContent := lit ''   '' \<rparr>)
       = (exampleState\<lparr> inputContent := lit ''   '' \<rparr>, [])"
proof -
  have h: "whitespaceOnly (inputContent (exampleState\<lparr> inputContent := lit ''   '' \<rparr>))"
    by (simp add: whitespaceOnly_def lit_def isWhiteSpace_def)
  from C5_blank_add_is_local [OF h, of exampleEnv] h show ?thesis by simp
qed

text \<open>
  C6: when the new content is empty or consists of whitespace only, the content update
  issues no write and leaves the state, and with it every item's content, as it is.
\<close>

theorem C6_blank_edit_is_noop:
  "whitespaceOnly newContent \<Longrightarrow> updateContent env st todoId newContent = (st, [])"
  by (simp add: updateContent_def truthy_trim)

text \<open>
  The update runs when the input loses focus. What was typed before is in the local copy
  already, put there by the change handler, and a blank update leaves that as well.
\<close>

lemma blank_edit_after_typing:
  "whitespaceOnly v \<Longrightarrow>
     updateContent env (onContentChange st todoId v) todoId v = (onContentChange st todoId v, [])"
  by (simp add: updateContent_def truthy_trim)

theorem C6_blank_edit_is_noop_witness:
  "whitespaceOnly (lit ''   '')
   \<and> updateContent exampleEnv exampleState (lit ''d1'') (lit ''   '') = (exampleState, [])"
proof -
  have h: "whitespaceOnly (lit ''   '')"
    by (simp add: whitespaceOnly_def lit_def isWhiteSpace_def)
  from C6_blank_edit_is_noop [OF h] h show ?thesis by simp
qed

text \<open>
  The add handler returns before it builds a document when the database handle is unset:
  with the content "buy milk" and no handle it issues nothing.
\<close>

theorem C7_no_database_counterexample:
  "\<not> whitespaceOnly (inputContent exampleState)
   \<and> snd (addTodo (exampleEnv\<lparr> firestoreDb := None \<rparr>) exampleState) = []"
  by (simp add: addTodo_def exampleEnv_def exampleState_def whitespaceOnly_def lit_def
        isWhiteSpace_def)

text \<open>
  C7, as amended: when the input content is not whitespace-only and the database handle
  is set, the add handler issues exactly one write, a create of a new document of the todos
  collection with the trimmed content, the selected category, done = false, the pending
  server timestamp as creation marker, and createdBy = the current user id.
\<close>

theorem C7_add_issues_one_create:
  assumes "\<not> whitespaceOnly (inputContent st)" and "firestoreDb env = Some db"
  shows "snd (addTodo env st) =
           [SetDoc (docAutoId (collection db todosPath) (autoId env))
              [ContentField (trim (inputContent st)),
               CategoryField (inputCategory st),
               DoneField False,
               CreatedAtField serverTimestamp,
               CreatedByField (userId st)] False]"
  using assms
  by (simp add: addTodo_def truthy_trim truthy_categoryString getTodosCollectionRef_def
        appId_def todosPath_def Let_def)

theorem C7_add_issues_one_create_witness:
  "\<not> whitespaceOnly (lit '' buy milk '')
   \<and> snd (addTodo exampleEnv exampleState) =
       [SetDoc (DocumentReference (CollectionReference Firestore todosPath) (lit ''d1''))
          [ContentField (lit ''buy milk''), CategoryField business, DoneField False,
           CreatedAtField FieldValue, CreatedByField (Some (lit ''u1''))] False]"
proof -
  have h1: "\<not> whitespaceOnly (inputContent exampleState)"
    by (simp add: exampleState_def whitespaceOnly_def lit_def isWhiteSpace_def)
  have h2: "firestoreDb exampleEnv = Some Firestore"
    by (simp add: exampleEnv_def)
  have e: "autoId exampleEnv = lit ''d1''" "inputContent exampleState = lit '' buy milk ''"
    "inputCategory exampleState = business" "userId exampleState = Some (lit ''u1'')"
    by (simp_all add: exampleEnv_def exampleState_def)
  from C7_add_issues_one_create [OF h1 h2] h1 show ?thesis
    by (simp add: e trim_buy_milk docAutoId_def collection_def serverTimestamp_def)
qed

subsection \<open>Document references\<close>

lemma splitSlash_plain: "0x002F \<notin> set path \<Longrightarrow> splitSlash path = [path]"
  by (induction path) auto

lemma hasDoubleSlash_plain: "0x002F \<notin> set path \<Longrightarrow> \<not> hasDoubleSlash path"
  by (induction path rule: hasDoubleSlash.induct) auto

text \<open>An id that is not empty and has no slash names a document of the todos collection.\<close>

lemma doc_plain_id:
  assumes "path \<noteq> []" and "0x002F \<notin> set path"
  shows "doc (collection db todosPath) path
           = Some (DocumentReference (collection db todosPath) path)"
  using assms
  by (simp add: doc_def collection_def todosPath_def truthy_def splitSlash_plain
        hasDoubleSlash_plain)

lemma todosColRef_eq:
  "firestoreDb env = Some db \<Longrightarrow> getTodosCollectionRef env = Some (collection db todosPath)"
  by (simp add: getTodosCollectionRef_def appId_def todosPath_def)

text \<open>
  A delete with an id that \<open>doc\<close> refuses is caught inside the handler: the status is set
  and nothing is written.
\<close>

lemma removeTodo_invalid_id:
  "firestoreDb env = Some db \<Longrightarrow> doc (collection db todosPath) todoId = None \<Longrightarrow>
     removeTodo env st todoId
       = (st\<lparr> syncStatus := lit ''Failed to delete todo. Check console.'' \<rparr>, [])"
  by (simp add: removeTodo_def todosColRef_eq)

subsection \<open>Failing writes\<close>

lemma addTodo_outcome:
  assumes "\<not> whitespaceOnly (inputContent st)" and "firestoreDb env = Some db"
  shows "addTodo env st =
           (let w = SetDoc (docAutoId (collection db todosPath) (autoId env))
                      [ContentField (trim (inputContent st)), CategoryField (inputCategory st),
                       DoneField False, CreatedAtField serverTimestamp,
                       CreatedByField (userId st)] False
            in if resolves env w
               then (st\<lparr> inputContent := [] \<rparr>, [w])
               else (st\<lparr> syncStatus := lit ''Failed to add todo. Check console.'' \<rparr>, [w]))"
  using assms
  by (simp add: addTodo_def truthy_trim truthy_categoryString todosColRef_eq Let_def)

lemma removeTodo_outcome:
  assumes "firestoreDb env = Some db" and "doc (collection db todosPath) todoId = Some ref"
  shows "removeTodo env st todoId =
           (if resolves env (DeleteDoc ref) then st
            else st\<lparr> syncStatus := lit ''Failed to delete todo. Check console.'' \<rparr>,
            [DeleteDoc ref])"
  using assms by (simp add: removeTodo_def todosColRef_eq)

lemma toggleDone_outcome:
  assumes "firestoreDb env = Some db" and "doc (collection db todosPath) (id' todo) = Some ref"
  shows "toggleDone env st todo =
           (if resolves env (SetDoc ref [DoneField (\<not> done' todo)] True) then st
            else st\<lparr> syncStatus := lit ''Failed to update todo status. Check console.'' \<rparr>,
            [SetDoc ref [DoneField (\<not> done' todo)] True])"
  using assms by (simp add: toggleDone_def todosColRef_eq)

lemma updateContent_outcome:
  assumes "\<not> whitespaceOnly newContent" and "firestoreDb env = Some db"
    and "doc (collection db todosPath) todoId = Some ref"
  shows "updateContent env st todoId newContent =
           (if resolves env (SetDoc ref [ContentField (trim newContent)] True) then st
            else st\<lparr> syncStatus := lit ''Failed to update todo content. Check console.'' \<rparr>,
            [SetDoc ref [ContentField (trim newContent)] True])"
  using assms by (simp add: updateContent_def truthy_trim todosColRef_eq)

lemma addTodo_cases:
  "addTodo env st = (st, [])
   \<or> (\<exists>w. resolves env w \<and> addTodo env st = (st\<lparr> inputContent := [] \<rparr>, [w]))
   \<or> (\<exists>w. \<not> resolves env w
          \<and> addTodo env st = (st\<lparr> syncStatus := lit ''Failed to add todo. Check console.'' \<rparr>, [w]))"
  by (simp add: addTodo_def Let_def split: option.splits)

lemma at_most_one_write:
  "length (snd (addTodo env st)) \<le> 1"
  "length (snd (removeTodo env st todoId)) \<le> 1"
  "length (snd (toggleDone env st todo)) \<le> 1"
  "length (snd (updateContent env st todoId newContent)) \<le> 1"
  by (simp_all add: addTodo_def removeTodo_def toggleDone_def updateContent_def Let_def
        split: option.splits)

text \<open>
  C8: each handler issues at most one write, so none is tried again. When the database
  handle is set and the write of a handler is rejected (the create of the add handler for a
  content that is not blank; the delete, the update of done and the update of a content
  that is not blank, for an id that names a document), the handler has issued exactly that
  write, the status is the handler's error string, and the rest of the state is as before.
  The input buffer of the add handler is emptied when its create resolves; it is the same
  as before whenever no create has resolved.
\<close>

theorem C8_failed_write_abandoned:
  "(\<not> whitespaceOnly (inputContent st) \<and> firestoreDb env = Some db
      \<and> w = SetDoc (docAutoId (collection db todosPath) (autoId env))
               [ContentField (trim (inputContent st)), CategoryField (inputCategory st),
                DoneField False, CreatedAtField serverTimestamp, CreatedByField (userId st)] False
      \<longrightarrow> addTodo env st =
            (if resolves env w then (st\<lparr> inputContent := [] \<rparr>, [w])
             else (st\<lparr> syncStatus := lit ''Failed to add todo. Check console.'' \<rparr>, [w])))
   \<and> (firestoreDb env = Some db \<and> doc (collection db todosPath) todoId = Some ref
        \<and> \<not> resolves env (DeleteDoc ref)
      \<longrightarrow> removeTodo env st todoId =
            (st\<lparr> syncStatus := lit ''Failed to delete todo. Check console.'' \<rparr>, [DeleteDoc ref]))
   \<and> (firestoreDb env = Some db \<and> doc (collection db todosPath) (id' todo) = Some ref'
        \<and> \<not> resolves env (SetDoc ref' [DoneField (\<not> done' todo)] True)
      \<longrightarrow> toggleDone env st todo =
            (st\<lparr> syncStatus := lit ''Failed to update todo status. Check console.'' \<rparr>,
             [SetDoc ref' [DoneField (\<not> done' todo)] True]))
   \<and> (\<not> whitespaceOnly newContent \<and> firestoreDb env = Some db
        \<and> doc (collection db todosPath) todoId = Some ref
        \<and> \<not> resolves env (SetDoc ref [ContentField (trim newContent)] True)
      \<longrightarrow> updateContent env st todoId newContent =
            (st\<lparr> syncStatus := lit ''Failed to update todo content. Check console.'' \<rparr>,
             [SetDoc ref [ContentField (trim newContent)] True]))
   \<and> inputContent (fst (addTodo env st)) =
       (if \<exists>w \<in> set (snd (addTodo env st)). resolves env w then [] else inputContent st)
   \<and> length (snd (addTodo env st)) \<le> 1
   \<and> length (snd (removeTodo env st todoId)) \<le> 1
   \<and> length (snd (toggleDone env st todo)) \<le> 1
   \<and> length (snd (updateContent env st todoId newContent)) \<le> 1"
proof (intro conjI impI)
  assume "\<not> whitespaceOnly (inputContent st) \<and> firestoreDb env = Some db
      \<and> w = SetDoc (docAutoId (collection db todosPath) (autoId env))
               [ContentField (trim (inputContent st)), CategoryField (inputCategory st),
                DoneField False, CreatedAtField serverTimestamp, CreatedByField (userId st)] False"
  then show "addTodo env st =
            (if resolves env w then (st\<lparr> inputContent := [] \<rparr>, [w])
             else (st\<lparr> syncStatus := lit ''Failed to add todo. Check console.'' \<rparr>, [w]))"
    using addTodo_outcome [of st env db] by (simp add: Let_def)
next
  assume "firestoreDb env = Some db \<and> doc (collection db todosPath) todoId = Some ref
        \<and> \<not> resolves env (DeleteDoc ref)"
  then show "removeTodo env st todoId =
            (st\<lparr> syncStatus := lit ''Failed to delete todo. Check console.'' \<rparr>, [DeleteDoc ref])"
    using removeTodo_outcome [of env db todoId ref st] by simp
next
  assume "firestoreDb env = Some db \<and> doc (collection db todosPath) (id' todo) = Some ref'
        \<and> \<not> resolves env (SetDoc ref' [DoneField (\<not> done' todo)] True)"
  then show "toggleDone env st todo =
            (st\<lparr> syncStatus := lit ''Failed to update todo status. Check console.'' \<rparr>,
             [SetDoc ref' [DoneField (\<not> done' todo)] True])"
    using toggleDone_outcome [of env db todo ref' st] by simp
next
  assume "\<not> whitespaceOnly newContent \<and> firestoreDb env = Some db
        \<and> doc (collection db todosPath) todoId = Some ref
        \<and> \<not> resolves env (SetDoc ref [ContentField (trim newContent)] True)"
  then show "updateContent env st todoId newContent =
            (st\<lparr> syncStatus := lit ''Failed to update todo content. Check console.'' \<rparr>,
             [SetDoc ref [ContentField (trim newContent)] True])"
    using updateContent_outcome [of newContent env db todoId ref st] by simp
next
  show "inputContent (fst (addTodo env st)) =
       (if \<exists>w \<in> set (snd (addTodo env st)). resolves env w then [] else inputContent st)"
    using addTodo_cases [of env st] by auto
qed (rule at_most_one_write)+

text \<open>
  With a store that rejects every write: the create of "buy milk", the delete of the
  document d1, the update of its done field and the update of its content each leave one
  rejected write and the handler's error string.
\<close>

theorem C8_failed_write_abandoned_witness:
  "addTodo (exampleEnv\<lparr> resolves := \<lambda>w. False \<rparr>) exampleState
     = (exampleState\<lparr> syncStatus := lit ''Failed to add todo. Check console.'' \<rparr>,
        [SetDoc (DocumentReference (CollectionReference Firestore todosPath) (lit ''d1''))
           [ContentField (lit ''buy milk''), CategoryField business, DoneField False,
            CreatedAtField FieldValue, CreatedByField (Some (lit ''u1''))] False])
   \<and> removeTodo (exampleEnv\<lparr> resolves := \<lambda>w. False \<rparr>) exampleState (lit ''d1'')
     = (exampleState\<lparr> syncStatus := lit ''Failed to delete todo. Check console.'' \<rparr>,
        [DeleteDoc (DocumentReference (CollectionReference Firestore todosPath) (lit ''d1''))])
   \<and> toggleDone (exampleEnv\<lparr> resolves := \<lambda>w. False \<rparr>) exampleState
        (exampleTodo (lit ''d1'') Null)
     = (exampleState\<lparr> syncStatus := lit ''Failed to update todo status. Check console.'' \<rparr>,
        [SetDoc (DocumentReference (CollectionReference Firestore todosPath) (lit ''d1''))
           [DoneField True] True])
   \<and> updateContent (exampleEnv\<lparr> resolves := \<lambda>w. False \<rparr>) exampleState (lit ''d1'')
        (lit '' buy milk '')
     = (exampleState\<lparr> syncStatus := lit ''Failed to update todo content. Check console.'' \<rparr>,
        [SetDoc (DocumentReference (CollectionReference Firestore todosPath) (lit ''d1''))
           [ContentField (lit ''buy milk'')] True])"
proof -
  let ?env = "exampleEnv\<lparr> resolves := \<lambda>w. False \<rparr>"
  let ?ref = "DocumentReference (CollectionReference Firestore todosPath) (lit ''d1'')"
  let ?todo = "exampleTodo (lit ''d1'') Null"
  let ?w = "SetDoc (docAutoId (collection Firestore todosPath) (autoId ?env))
              [ContentField (trim (inputContent exampleState)),
               CategoryField (inputCategory exampleState), DoneField False,
               CreatedAtField serverTimestamp, CreatedByField (userId exampleState)] False"
  have db: "firestoreDb ?env = Some Firestore" by (simp add: exampleEnv_def)
  have nb: "\<not> whitespaceOnly (inputContent exampleState)"
    "\<not> whitespaceOnly (lit '' buy milk '')"
    by (simp_all add: exampleState_def whitespaceOnly_def lit_def isWhiteSpace_def)
  have d: "doc (collection Firestore todosPath) (lit ''d1'') = Some ?ref"
    "doc (collection Firestore todosPath) (id' ?todo) = Some ?ref"
    using doc_plain_id [of "lit ''d1''" Firestore]
    by (simp_all add: collection_def exampleTodo_def lit_def)
  have rej: "\<And>w. \<not> resolves ?env w" by simp
  note c8 = C8_failed_write_abandoned
              [where env = ?env and st = exampleState and db = Firestore and w = ?w
                 and todoId = "lit ''d1''" and ref = ?ref and todo = ?todo and ref' = ?ref
                 and newContent = "lit '' buy milk ''"]
  from c8 db nb(1) rej
  have "addTodo ?env exampleState
          = (exampleState\<lparr> syncStatus := lit ''Failed to add todo. Check console.'' \<rparr>, [?w])"
    by simp
  moreover from c8 db d(1) rej
  have "removeTodo ?env exampleState (lit ''d1'')
          = (exampleState\<lparr> syncStatus := lit ''Failed to delete todo. Check console.'' \<rparr>,
             [DeleteDoc ?ref])"
    by blast
  moreover from c8 db d(2) rej
  have "toggleDone ?env exampleState ?todo
          = (exampleState\<lparr> syncStatus := lit ''Failed to update todo status. Check console.'' \<rparr>,
             [SetDoc ?ref [DoneField (\<not> done' ?todo)] True])"
    by blast
  moreover from c8 db d(1) nb(2) rej
  have "updateContent ?env exampleState (lit ''d1'') (lit '' buy milk '')
          = (exampleState\<lparr> syncStatus := lit ''Failed to update todo content. Check console.'' \<rparr>,
             [SetDoc ?ref [ContentField (trim (lit '' buy milk ''))] True])"
    by blast
  moreover have "trim (inputContent exampleState) = lit ''buy milk''"
    "inputCategory exampleState = business" "userId exampleState = Some (lit ''u1'')"
    "autoId ?env = lit ''d1''" "done' ?todo = False"
    by (simp_all add: exampleState_def exampleEnv_def exampleTodo_def trim_buy_milk)
  ultimately show ?thesis
    by (simp add: trim_buy_milk docAutoId_def collection_def serverTimestamp_def)
qed

text \<open>
  C9: every content a handler writes to the store, in the create of the add handler and
  in the partial update of the content update, is a trimmed string that is neither empty
  nor whitespace-only; the other two handlers write no content.
\<close>

theorem C9_written_content_trimmed:
  "(\<forall>c \<in> set (concat (map contentWritten (snd (addTodo env st)))).
       c \<noteq> [] \<and> \<not> whitespaceOnly c \<and> trim c = c)
   \<and> (\<forall>c \<in> set (concat (map contentWritten (snd (updateContent env st todoId newContent)))).
       c \<noteq> [] \<and> \<not> whitespaceOnly c \<and> trim c = c)
   \<and> concat (map contentWritten (snd (toggleDone env st todo))) = []
   \<and> concat (map contentWritten (snd (removeTodo env st todoId))) = []"
proof (intro conjI)
  show "\<forall>c \<in> set (concat (map contentWritten (snd (addTodo env st)))).
       c \<noteq> [] \<and> \<not> whitespaceOnly c \<and> trim c = c"
    using trimmed_content [of "inputContent st"]
    by (auto simp: addTodo_def Let_def split: option.splits)
  show "\<forall>c \<in> set (concat (map contentWritten (snd (updateContent env st todoId newContent)))).
       c \<noteq> [] \<and> \<not> whitespaceOnly c \<and> trim c = c"
    using trimmed_content [of newContent]
    by (auto simp: updateContent_def Let_def split: option.splits)
  show "concat (map contentWritten (snd (toggleDone env st todo))) = []"
    by (simp add: toggleDone_def Let_def split: option.splits)
  show "concat (map contentWritten (snd (removeTodo env st todoId))) = []"
    by (simp add: removeTodo_def Let_def split: option.splits)
qed

text \<open>The update of a todo's content to " buy milk " writes "buy milk".\<close>

theorem C9_written_content_trimmed_witness:
  "concat (map contentWritten
      (snd (updateContent exampleEnv exampleState (lit ''d1'') (lit '' buy milk ''))))
     = [lit ''buy milk'']
   \<and> lit ''buy milk'' \<noteq> [] \<and> \<not> whitespaceOnly (lit ''buy milk'')
   \<and> trim (lit ''buy milk'') = lit ''buy milk''"
proof -
  let ?ws = "snd (updateContent exampleEnv exampleState (lit ''d1'') (lit '' buy milk ''))"
  have nb: "\<not> whitespaceOnly (lit '' buy milk '')"
    by (simp add: whitespaceOnly_def lit_def isWhiteSpace_def)
  have db: "firestoreDb exampleEnv = Some Firestore" by (simp add: exampleEnv_def)
  have d: "doc (collection Firestore todosPath) (lit ''d1'')
             = Some (DocumentReference (collection Firestore todosPath) (lit ''d1''))"
    by (rule doc_plain_id) (simp_all add: lit_def)
  have w: "concat (map contentWritten ?ws) = [lit ''buy milk'']"
    by (simp add: updateContent_outcome [OF nb db d] trim_buy_milk)
  from C9_written_content_trimmed [of exampleEnv exampleState "lit ''d1''" "lit '' buy milk ''"]
  have "\<forall>c \<in> set (concat (map contentWritten ?ws)).
          c \<noteq> [] \<and> \<not> whitespaceOnly c \<and> trim c = c"
    by blast
  then have "lit ''buy milk'' \<noteq> [] \<and> \<not> whitespaceOnly (lit ''buy milk'')
             \<and> trim (lit ''buy milk'') = lit ''buy milk''"
    unfolding w by simp
  with w show ?thesis by blast
qed

end
